theory Spec2Isabelle
  imports Complex_Main "HOL-Library.Sublist"
begin

section \<open>Python values used by app.py\<close>

subsection \<open>Strings and the Unicode tables\<close>

text \<open>
  A Python \<open>str\<close> is modelled as a \<open>string\<close>. The program never looks at the code
  points themselves: it classifies them through the regular expression classes \<open>\w\<close>
  and \<open>\s\<close>, strips whitespace with \<open>str.strip\<close> and folds case with \<open>str.lower\<close>.
  These tables belong to the Python runtime, not to the repository, so they are a
  parameter of the model: \<open>isalnum\<close> is the runtime's alphanumeric test,
  \<open>isspace\<close> its whitespace test and \<open>lower\<close> its \<open>str.lower\<close>.
\<close>

record pyunicode =
  isalnum :: "char \<Rightarrow> bool"
  isspace :: "char \<Rightarrow> bool"
  lower :: "string \<Rightarrow> string"

text \<open>The class \<open>\w\<close> of \<open>re\<close> on a \<open>str\<close> pattern: alphanumeric, or the underscore.\<close>

definition is_word :: "pyunicode \<Rightarrow> char \<Rightarrow> bool" where
  "is_word U c = (isalnum U c \<or> c = CHR ''_'')"

text \<open>
  \<open>re.sub(r'[^\w\s]', '', s)\<close> (app.py 449-450 and 546-547): every character that is
  neither in \<open>\w\<close> nor in \<open>\s\<close> is deleted, the others stay in place.
\<close>

definition clean :: "pyunicode \<Rightarrow> string \<Rightarrow> string" where
  "clean U s = filter (\<lambda>c. is_word U c \<or> isspace U c) s"

text \<open>\<open>s.strip()\<close>: leading and trailing whitespace is removed.\<close>

definition strip :: "pyunicode \<Rightarrow> string \<Rightarrow> string" where
  "strip U s = rev (dropWhile (isspace U) (rev (dropWhile (isspace U) s)))"

text \<open>\<open>a in b\<close> on strings: \<open>a\<close> occurs in \<open>b\<close> as a contiguous substring.\<close>

definition str_in :: "string \<Rightarrow> string \<Rightarrow> bool" where
  "str_in a b = sublist a b"

text \<open>Truthiness of a string, and of a value that may be \<open>None\<close>.\<close>

definition truthy :: "string \<Rightarrow> bool" where
  "truthy s = (s \<noteq> [])"

fun truthy_opt :: "string option \<Rightarrow> bool" where
  "truthy_opt None = False"
| "truthy_opt (Some s) = truthy s"

text \<open>
  The tables on the ASCII range, where they are fixed: the letters and digits, the
  whitespace characters (tab to carriage return, the four separators 0x1C-0x1F and the
  space), and the lower-case mapping of A-Z. Concrete runs below use these tables on
  ASCII strings.
\<close>

definition ascii_lower_char :: "char \<Rightarrow> char" where
  "ascii_lower_char c =
     (case map_of (zip ''ABCDEFGHIJKLMNOPQRSTUVWXYZ'' ''abcdefghijklmnopqrstuvwxyz'') c of
        Some d \<Rightarrow> d
      | None \<Rightarrow> c)"

definition ascii_tables :: pyunicode where
  "ascii_tables =
     \<lparr> isalnum = (\<lambda>c. c \<in> set ''0123456789ABCDEFGHIJKLMNOPQRSTUVWXYZabcdefghijklmnopqrstuvwxyz''),
       isspace = (\<lambda>c. c \<in> set [CHR 0x09, CHR 0x0A, CHR 0x0B, CHR 0x0C, CHR 0x0D,
                                 CHR 0x1C, CHR 0x1D, CHR 0x1E, CHR 0x1F, CHR '' '']),
       lower = map ascii_lower_char \<rparr>"

subsection \<open>Calls to the platforms\<close>

text \<open>
  A call to \<open>requests\<close> or to \<open>spotipy\<close> either raises an exception or returns. Every
  method of app.py wraps its calls in \<open>try\<close> ... \<open>except Exception\<close>, so the model makes the
  exception a value and each method says what it returns then.
\<close>

datatype 'a outcome = Raises | Returns 'a

text \<open>
  A \<open>requests\<close> response: its status code and its decoded JSON body, \<open>None\<close> when
  the body does not decode (\<open>response.json()\<close> raises then).
\<close>

record 'a response =
  status_code :: int
  json :: "'a option"

section \<open>The Deezer and Spotify objects\<close>

text \<open>
  The JSON objects the platforms return are records with the keys the code subscripts
  (\<open>track['artist']['name']\<close> is \<open>dz_artist\<close>, \<open>track['album']['title']\<close> is
  \<open>dz_album\<close>, and so on). Keys read with \<open>.get\<close> are optional.
\<close>

record dz_track =
  dz_id :: int
  dz_title :: string
  dz_artist :: string
  dz_album :: string
  dz_duration :: int

text \<open>A Deezer list envelope: \<open>data.get('data')\<close> and \<open>data.get('next')\<close>.\<close>

record dz_list =
  dz_data :: "dz_track list option"
  dz_next :: "string option"

record sp_track =
  sp_id :: string
  sp_name :: string
  sp_artists :: "string list"
  sp_album :: string
  sp_duration_ms :: int
  sp_type :: string

text \<open>A Spotify paging object: \<open>results['items']\<close> and \<open>results['next']\<close>.\<close>

record 'a sp_page =
  sp_items :: "'a list"
  sp_next :: "string option"

text \<open>An item of a playlist's track listing: \<open>item['track']\<close> may be null.\<close>

record sp_item =
  sp_item_track :: "sp_track option"

record sp_playlist =
  sp_pl_id :: string
  sp_pl_name :: string
  sp_pl_description :: string
  sp_pl_owner_id :: string
  sp_pl_tracks_total :: int

text \<open>
  The \<open>spotipy.Spotify\<close> client held in \<open>self.spotify\<close>, as the methods app.py calls.
  \<open>current_user\<close> gives \<open>current_user()['id']\<close>, \<open>search\<close> gives
  \<open>results['tracks']['items']\<close>, \<open>user_playlist_create\<close> gives \<open>playlist['id']\<close>.
  \<open>get_playlists\<close> and \<open>get_tracks\<close> are the request \<open>spotipy.next\<close> sends to a
  paging object's \<open>next\<close> URL. A paging result that is \<open>None\<close> is the falsy result
  that ends a \<open>while results\<close> loop.
\<close>

record spotify_client =
  current_user :: "string outcome"
  current_user_playlists :: "sp_playlist sp_page option outcome"
  get_playlists :: "string \<Rightarrow> sp_playlist sp_page option outcome"
  playlist_tracks :: "string \<Rightarrow> sp_item sp_page option outcome"
  get_tracks :: "string \<Rightarrow> sp_item sp_page option outcome"
  search :: "string \<Rightarrow> sp_track list outcome"
  user_playlist_create :: "string \<Rightarrow> string \<Rightarrow> string outcome"
  playlist_add_items :: "string \<Rightarrow> string list \<Rightarrow> unit outcome"

section \<open>Track search\<close>

text \<open>The dictionaries the two search methods return.\<close>

record deezer_match =
  dm_id :: int
  dm_title :: string
  dm_artist :: string
  dm_album :: string
  dm_duration :: int

record spotify_match =
  sm_id :: string
  sm_title :: string
  sm_artists :: "string list"
  sm_album :: string
  sm_duration :: int

definition deezer_match_of :: "dz_track \<Rightarrow> deezer_match" where
  "deezer_match_of track =
     \<lparr> dm_id = dz_id track, dm_title = dz_title track, dm_artist = dz_artist track,
       dm_album = dz_album track, dm_duration = dz_duration track \<rparr>"

definition spotify_match_of :: "sp_track \<Rightarrow> spotify_match" where
  "spotify_match_of track =
     \<lparr> sm_id = sp_id track, sm_title = sp_name track, sm_artists = sp_artists track,
       sm_album = sp_album track, sm_duration = sp_duration_ms track div 1000 \<rparr>"

text \<open>
  The test of app.py 468-469, on the cleaned query fields and one candidate: the
  candidate's title and artist are lower-cased, nothing else is done to them.
\<close>

definition deezer_passes :: "pyunicode \<Rightarrow> string \<Rightarrow> string \<Rightarrow> dz_track \<Rightarrow> bool" where
  "deezer_passes U clean_title clean_artist track =
     (let track_title = lower U (dz_title track);
          track_artist = lower U (dz_artist track)
      in (str_in (lower U clean_title) track_title \<or> str_in track_title (lower U clean_title))
         \<and> (str_in (lower U clean_artist) track_artist
              \<or> str_in track_artist (lower U clean_artist)))"

text \<open>
  The test of app.py 558-559: the artist part holds when \<open>any\<close> of the candidate's
  artists passes.
\<close>

definition spotify_passes :: "pyunicode \<Rightarrow> string \<Rightarrow> string \<Rightarrow> sp_track \<Rightarrow> bool" where
  "spotify_passes U clean_title clean_artist track =
     (let track_title = lower U (sp_name track);
          track_artists = map (lower U) (sp_artists track)
      in (str_in (lower U clean_title) track_title \<or> str_in track_title (lower U clean_title))
         \<and> list_ex (\<lambda>ta. str_in (lower U clean_artist) ta \<or> str_in ta (lower U clean_artist))
               track_artists)"

text \<open>
  The \<open>for\<close> loops of app.py 464-476 and 554-566: \<open>Some\<close> is the \<open>return\<close> inside the
  loop, \<open>None\<close> means that the loop ran to its end.
\<close>

fun deezer_match_loop :: "pyunicode \<Rightarrow> string \<Rightarrow> string \<Rightarrow> dz_track list \<Rightarrow> deezer_match option" where
  "deezer_match_loop U clean_title clean_artist [] = None"
| "deezer_match_loop U clean_title clean_artist (track # rest) =
     (if deezer_passes U clean_title clean_artist track then Some (deezer_match_of track)
      else deezer_match_loop U clean_title clean_artist rest)"

fun spotify_match_loop :: "pyunicode \<Rightarrow> string \<Rightarrow> string \<Rightarrow> sp_track list \<Rightarrow> spotify_match option" where
  "spotify_match_loop U clean_title clean_artist [] = None"
| "spotify_match_loop U clean_title clean_artist (track # rest) =
     (if spotify_passes U clean_title clean_artist track then Some (spotify_match_of track)
      else spotify_match_loop U clean_title clean_artist rest)"

definition deezer_query :: "pyunicode \<Rightarrow> string \<Rightarrow> string \<Rightarrow> string" where
  "deezer_query U title artist = strip U (clean U artist @ '' '' @ clean U title)"

definition spotify_query :: "pyunicode \<Rightarrow> string \<Rightarrow> string \<Rightarrow> string" where
  "spotify_query U title artist = ''track:'' @ clean U title @ '' artist:'' @ clean U artist"

text \<open>
  \<open>search_deezer_track\<close> (app.py 445-491). \<open>deezer_search\<close> is the request
  \<open>GET /search\<close> with the query \<open>q\<close>. The method returns \<open>None\<close> on an exception, on a
  status other than 200 and on an empty or missing \<open>data\<close>.
\<close>

definition search_deezer_track ::
  "pyunicode \<Rightarrow> (string \<Rightarrow> dz_list response outcome) \<Rightarrow> string \<Rightarrow> string \<Rightarrow> deezer_match option" where
  "search_deezer_track U deezer_search title artist =
     (let clean_title = clean U title;
          clean_artist = clean U artist;
          query = deezer_query U title artist
      in case deezer_search query of
           Raises \<Rightarrow> None
         | Returns response \<Rightarrow>
             if status_code response = 200 then
               (case json response of
                  None \<Rightarrow> None
                | Some data \<Rightarrow>
                    (case dz_data data of
                       None \<Rightarrow> None
                     | Some [] \<Rightarrow> None
                     | Some (first # others) \<Rightarrow>
                         (case deezer_match_loop U clean_title clean_artist (first # others) of
                            Some found \<Rightarrow> Some found
                          | None \<Rightarrow> Some (deezer_match_of first))))
             else None)"

text \<open>
  \<open>search_spotify_track\<close> (app.py 540-581); \<open>self.spotify\<close> is \<open>None\<close> when the
  connection was never set up.
\<close>

definition search_spotify_track ::
  "pyunicode \<Rightarrow> spotify_client option \<Rightarrow> string \<Rightarrow> string \<Rightarrow> spotify_match option" where
  "search_spotify_track U spotify title artist =
     (case spotify of
        None \<Rightarrow> None
      | Some client \<Rightarrow>
          (let clean_title = clean U title;
               clean_artist = clean U artist;
               query = spotify_query U title artist
           in case search client query of
                Raises \<Rightarrow> None
              | Returns [] \<Rightarrow> None
              | Returns (first # others) \<Rightarrow>
                  (case spotify_match_loop U clean_title clean_artist (first # others) of
                     Some found \<Rightarrow> Some found
                   | None \<Rightarrow> Some (spotify_match_of first))))"

section \<open>Listing a playlist's tracks\<close>

text \<open>The dictionaries \<open>get_deezer_playlist_tracks\<close> appends (app.py 355-361).\<close>

record deezer_listed =
  dl_title :: string
  dl_artist :: string
  dl_album :: string
  dl_duration :: int
  dl_deezer_id :: int

definition deezer_listed_of :: "dz_track \<Rightarrow> deezer_listed" where
  "deezer_listed_of track =
     \<lparr> dl_title = dz_title track, dl_artist = dz_artist track, dl_album = dz_album track,
       dl_duration = dz_duration track, dl_deezer_id = dz_id track \<rparr>"

definition DEEZER_BASE_URL :: string where
  "DEEZER_BASE_URL = ''https://api.deezer.com''"

text \<open>
  The \<open>while url\<close> loop of \<open>get_deezer_playlist_tracks\<close> (app.py 348-376).
  \<open>http_get\<close> is \<open>requests.get\<close> on a playlist tracks URL. The loop follows the
  \<open>next\<close> links for as long as the platform gives them, so it need not end: the
  outer \<open>option\<close> is \<open>None\<close> exactly when it runs forever. An exception anywhere,
  and the statuses 403 and 404, return the empty list; any other status leaves the
  loop with \<open>break\<close> and returns what was gathered.
\<close>

partial_function (option) deezer_tracks_loop ::
  "(string \<Rightarrow> dz_list response outcome) \<Rightarrow> string \<Rightarrow> deezer_listed list \<Rightarrow> deezer_listed list option" where
  "deezer_tracks_loop http_get url tracks =
     (if truthy url then
        (case http_get url of
           Raises \<Rightarrow> Some []
         | Returns response \<Rightarrow>
             if status_code response = 200 then
               (case json response of
                  None \<Rightarrow> Some []
                | Some data \<Rightarrow>
                    (let tracks' = tracks @ map deezer_listed_of
                           (case dz_data data of None \<Rightarrow> [] | Some page \<Rightarrow> page)
                     in case dz_next data of
                          None \<Rightarrow> Some tracks'
                        | Some url' \<Rightarrow> deezer_tracks_loop http_get url' tracks'))
             else if status_code response = 403 then Some []
             else if status_code response = 404 then Some []
             else Some tracks)
      else Some tracks)"

declare deezer_tracks_loop.simps [code]

definition get_deezer_playlist_tracks ::
  "(string \<Rightarrow> dz_list response outcome) \<Rightarrow> string \<Rightarrow> deezer_listed list option" where
  "get_deezer_playlist_tracks http_get playlist_id =
     deezer_tracks_loop http_get (DEEZER_BASE_URL @ ''/playlist/'' @ playlist_id @ ''/tracks'') []"

text \<open>The dictionaries \<open>get_spotify_playlist_tracks\<close> appends (app.py 426-433).\<close>

record spotify_listed =
  sl_title :: string
  sl_artist :: string
  sl_artists :: "string list"
  sl_album :: string
  sl_duration :: int
  sl_spotify_id :: string

definition spotify_listed_of :: "sp_track \<Rightarrow> spotify_listed" where
  "spotify_listed_of track =
     (let artists = sp_artists track
      in \<lparr> sl_title = sp_name track,
           sl_artist = (case artists of [] \<Rightarrow> [] | a # _ \<Rightarrow> a),
           sl_artists = artists,
           sl_album = sp_album track,
           sl_duration = sp_duration_ms track div 1000,
           sl_spotify_id = sp_id track \<rparr>)"

text \<open>
  The inner \<open>for item in results['items']\<close> loop (app.py 422-433): an item is kept
  when its track is present and of type \<open>track\<close>.
\<close>

fun spotify_collect :: "spotify_listed list \<Rightarrow> sp_item list \<Rightarrow> spotify_listed list" where
  "spotify_collect tracks [] = tracks"
| "spotify_collect tracks (item # rest) =
     (case sp_item_track item of
        None \<Rightarrow> spotify_collect tracks rest
      | Some track \<Rightarrow>
          if sp_type track = ''track'' then spotify_collect (tracks @ [spotify_listed_of track]) rest
          else spotify_collect tracks rest)"

text \<open>
  \<open>spotipy.Spotify.next\<close>: the request to the \<open>next\<close> URL when there is one,
  \<open>None\<close> otherwise.
\<close>

definition spotify_next_tracks ::
  "spotify_client \<Rightarrow> sp_item sp_page \<Rightarrow> sp_item sp_page option outcome" where
  "spotify_next_tracks client result =
     (case sp_next result of
        None \<Rightarrow> Returns None
      | Some url \<Rightarrow> if truthy url then get_tracks client url else Returns None)"

text \<open>
  The \<open>while results\<close> loop of \<open>get_spotify_playlist_tracks\<close> (app.py 421-438); an
  exception of the client returns the empty list (app.py 441-443).
\<close>

partial_function (option) spotify_tracks_loop ::
  "spotify_client \<Rightarrow> sp_item sp_page option \<Rightarrow> spotify_listed list \<Rightarrow> spotify_listed list option" where
  "spotify_tracks_loop client results tracks =
     (case results of
        None \<Rightarrow> Some tracks
      | Some page \<Rightarrow>
          (let tracks' = spotify_collect tracks (sp_items page)
           in if truthy_opt (sp_next page) then
                (case spotify_next_tracks client page of
                   Raises \<Rightarrow> Some []
                 | Returns results' \<Rightarrow> spotify_tracks_loop client results' tracks')
              else Some tracks'))"

declare spotify_tracks_loop.simps [code]

definition get_spotify_playlist_tracks ::
  "spotify_client option \<Rightarrow> string \<Rightarrow> spotify_listed list option" where
  "get_spotify_playlist_tracks spotify playlist_id =
     (case spotify of
        None \<Rightarrow> Some []
      | Some client \<Rightarrow>
          (case playlist_tracks client playlist_id of
             Raises \<Rightarrow> Some []
           | Returns results \<Rightarrow> spotify_tracks_loop client results []))"


section \<open>Listing the user's playlists\<close>

text \<open>\<open>get_spotify_playlists\<close> (app.py 383-410).\<close>

record playlist_listed =
  pl_id :: string
  pl_name :: string
  pl_description :: string
  pl_tracks_total :: int

definition playlist_listed_of :: "sp_playlist \<Rightarrow> playlist_listed" where
  "playlist_listed_of playlist =
     \<lparr> pl_id = sp_pl_id playlist, pl_name = sp_pl_name playlist,
       pl_description = sp_pl_description playlist,
       pl_tracks_total = sp_pl_tracks_total playlist \<rparr>"

text \<open>
  The inner loop (app.py 393-400). \<open>self.spotify.current_user()\<close> is called once for
  every playlist of the page, and may raise each time.
\<close>

fun playlists_collect ::
  "spotify_client \<Rightarrow> playlist_listed list \<Rightarrow> sp_playlist list \<Rightarrow> playlist_listed list outcome" where
  "playlists_collect client playlists [] = Returns playlists"
| "playlists_collect client playlists (playlist # rest) =
     (case current_user client of
        Raises \<Rightarrow> Raises
      | Returns me \<Rightarrow>
          if sp_pl_owner_id playlist = me
          then playlists_collect client (playlists @ [playlist_listed_of playlist]) rest
          else playlists_collect client playlists rest)"

definition spotify_next_playlists ::
  "spotify_client \<Rightarrow> sp_playlist sp_page \<Rightarrow> sp_playlist sp_page option outcome" where
  "spotify_next_playlists client result =
     (case sp_next result of
        None \<Rightarrow> Returns None
      | Some url \<Rightarrow> if truthy url then get_playlists client url else Returns None)"

partial_function (option) spotify_playlists_loop ::
  "spotify_client \<Rightarrow> sp_playlist sp_page option \<Rightarrow> playlist_listed list \<Rightarrow> playlist_listed list option" where
  "spotify_playlists_loop client results playlists =
     (case results of
        None \<Rightarrow> Some playlists
      | Some page \<Rightarrow>
          (case playlists_collect client playlists (sp_items page) of
             Raises \<Rightarrow> Some []
           | Returns playlists' \<Rightarrow>
               if truthy_opt (sp_next page) then
                 (case spotify_next_playlists client page of
                    Raises \<Rightarrow> Some []
                  | Returns results' \<Rightarrow> spotify_playlists_loop client results' playlists')
               else Some playlists'))"

declare spotify_playlists_loop.simps [code]

definition get_spotify_playlists :: "spotify_client option \<Rightarrow> playlist_listed list option" where
  "get_spotify_playlists spotify =
     (case spotify of
        None \<Rightarrow> Some []
      | Some client \<Rightarrow>
          (case current_user_playlists client of
             Raises \<Rightarrow> Some []
           | Returns results \<Rightarrow> spotify_playlists_loop client results []))"

section \<open>Creating a playlist\<close>

text \<open>\<open>str(n)\<close> on an integer, and \<open>sep.join(parts)\<close>.\<close>

fun str_nat :: "nat \<Rightarrow> string" where
  "str_nat n =
     (if n < 10 then [''0123456789'' ! n]
      else str_nat (n div 10) @ [''0123456789'' ! (n mod 10)])"

declare str_nat.simps [simp del]

definition str_int :: "int \<Rightarrow> string" where
  "str_int i = (if i < 0 then CHR ''-'' # str_nat (nat (- i)) else str_nat (nat i))"

fun join :: "string \<Rightarrow> string list \<Rightarrow> string" where
  "join sep [] = []"
| "join sep [part] = part"
| "join sep (part # next_part # parts) = part @ sep @ join sep (next_part # parts)"

text \<open>
  \<open>create_deezer_playlist\<close> (app.py 493-538). \<open>post_playlists\<close> is the request that
  creates the playlist (title, access token), \<open>post_tracks\<close> the request that adds
  tracks (playlist id, the comma-joined ids, access token). The result is the returned
  boolean and the add-track requests that were sent, in order.
\<close>

record dz_created =
  dz_created_id :: "int option"

definition create_deezer_playlist ::
  "string option \<Rightarrow> (string \<Rightarrow> string \<Rightarrow> dz_created response outcome)
   \<Rightarrow> (int \<Rightarrow> string \<Rightarrow> string \<Rightarrow> unit response outcome)
   \<Rightarrow> string \<Rightarrow> int list \<Rightarrow> bool \<times> (int \<times> string) list" where
  "create_deezer_playlist deezer_access_token post_playlists post_tracks name track_ids =
     (case deezer_access_token of
        None \<Rightarrow> (False, [])
      | Some token \<Rightarrow>
          if \<not> truthy token then (False, [])
          else
            (case post_playlists name token of
               Raises \<Rightarrow> (False, [])
             | Returns response \<Rightarrow>
                 if status_code response = 200 then
                   (case json response of
                      None \<Rightarrow> (False, [])
                    | Some playlist_data \<Rightarrow>
                        (case dz_created_id playlist_data of
                           None \<Rightarrow> (True, [])
                         | Some playlist_id \<Rightarrow>
                             if playlist_id \<noteq> 0 \<and> track_ids \<noteq> [] then
                               (let tracks_str = join '','' (map str_int track_ids)
                                in case post_tracks playlist_id tracks_str token of
                                     Raises \<Rightarrow> (False, [(playlist_id, tracks_str)])
                                   | Returns add_response \<Rightarrow>
                                       (status_code add_response = 200,
                                        [(playlist_id, tracks_str)]))
                             else (True, [])))
                 else (False, [])))"

text \<open>
  \<open>create_spotify_playlist\<close> (app.py 583-606). \<open>add_items_loop\<close> is the loop
  \<open>for i in range(0, len(track_ids), 100)\<close> with \<open>batch = track_ids[i:i+100]\<close>;
  \<open>calls\<close> are the \<open>playlist_add_items\<close> calls issued so far (playlist id, batch).
\<close>

function add_items_loop ::
  "spotify_client \<Rightarrow> string \<Rightarrow> string list \<Rightarrow> nat \<Rightarrow> (string \<times> string list) list
   \<Rightarrow> bool \<times> (string \<times> string list) list" where
  "add_items_loop client playlist_id track_ids i calls =
     (if i < length track_ids then
        (let batch = take 100 (drop i track_ids)
         in case playlist_add_items client playlist_id batch of
              Raises \<Rightarrow> (False, calls @ [(playlist_id, batch)])
            | Returns _ \<Rightarrow>
                add_items_loop client playlist_id track_ids (i + 100)
                  (calls @ [(playlist_id, batch)]))
      else (True, calls))"
  by pat_completeness auto
termination
  by (relation "measure (\<lambda>(client, playlist_id, track_ids, i, calls). length track_ids - i)") auto

declare add_items_loop.simps [simp del]

definition create_spotify_playlist ::
  "spotify_client option \<Rightarrow> string \<Rightarrow> string list \<Rightarrow> bool \<times> (string \<times> string list) list" where
  "create_spotify_playlist spotify name track_ids =
     (case spotify of
        None \<Rightarrow> (False, [])
      | Some client \<Rightarrow>
          (case current_user client of
             Raises \<Rightarrow> (False, [])
           | Returns user_id \<Rightarrow>
               (case user_playlist_create client user_id name of
                  Raises \<Rightarrow> (False, [])
                | Returns playlist_id \<Rightarrow>
                    if track_ids \<noteq> [] then add_items_loop client playlist_id track_ids 0 []
                    else (True, []))))"

section \<open>The resolving loops of the two conversions\<close>

text \<open>
  The loops of \<open>convert_spotify_to_deezer\<close> (app.py 621-635) and
  \<open>convert_deezer_to_spotify\<close> (app.py 668-682), started with two empty lists. The
  second prints \<open>spotify_track['artists'][0]\<close> (app.py 677), which raises
  \<open>IndexError\<close> on a match without artists; nothing catches it there.
\<close>

datatype py_error = IndexError

fun resolve_on_deezer ::
  "pyunicode \<Rightarrow> (string \<Rightarrow> dz_list response outcome) \<Rightarrow> spotify_listed list
   \<Rightarrow> int list \<Rightarrow> string list \<Rightarrow> int list \<times> string list" where
  "resolve_on_deezer U deezer_search [] found_tracks not_found = (found_tracks, not_found)"
| "resolve_on_deezer U deezer_search (track # rest) found_tracks not_found =
     (case search_deezer_track U deezer_search (sl_title track) (sl_artist track) of
        Some deezer_track \<Rightarrow>
          resolve_on_deezer U deezer_search rest (found_tracks @ [dm_id deezer_track]) not_found
      | None \<Rightarrow>
          resolve_on_deezer U deezer_search rest found_tracks
            (not_found @ [sl_artist track @ '' - '' @ sl_title track]))"

fun resolve_on_spotify ::
  "pyunicode \<Rightarrow> spotify_client option \<Rightarrow> deezer_listed list
   \<Rightarrow> string list \<Rightarrow> string list \<Rightarrow> py_error + (string list \<times> string list)" where
  "resolve_on_spotify U spotify [] found_tracks not_found = Inr (found_tracks, not_found)"
| "resolve_on_spotify U spotify (track # rest) found_tracks not_found =
     (case search_spotify_track U spotify (dl_title track) (dl_artist track) of
        Some spotify_track \<Rightarrow>
          (case sm_artists spotify_track of
             [] \<Rightarrow> Inl IndexError
           | _ # _ \<Rightarrow>
               resolve_on_spotify U spotify rest (found_tracks @ [sm_id spotify_track]) not_found)
      | None \<Rightarrow>
          resolve_on_spotify U spotify rest found_tracks
            (not_found @ [dl_artist track @ '' - '' @ dl_title track]))"

section \<open>The Deezer authorization-code exchange\<close>

text \<open>The state of a \<open>DeezerOAuth\<close> object (app.py 41-45).\<close>

record deezer_oauth =
  app_id :: string
  app_secret :: string
  redirect_uri :: string
  access_token :: "string option"
  authorization_code :: "string option"

text \<open>
  The token endpoint's response: its status code and \<open>parse_qs(response.text)\<close>, the
  dictionary from field names to value lists. \<open>GET /user/me\<close> answers with a JSON
  object of which the code only prints optional fields.
\<close>

record token_response =
  tk_status_code :: int
  tk_form :: "string \<Rightarrow> string list option"

record dz_user =
  dz_user_name :: "string option"
  dz_user_email :: "string option"
  dz_user_country :: "string option"

text \<open>\<open>test_connection\<close> (app.py 193-222); \<open>user_me\<close> is \<open>GET /user/me\<close> with a token.\<close>

definition test_connection ::
  "deezer_oauth \<Rightarrow> (string \<Rightarrow> dz_user response outcome) \<Rightarrow> bool" where
  "test_connection oauth user_me =
     (case access_token oauth of
        None \<Rightarrow> False
      | Some token \<Rightarrow>
          if \<not> truthy token then False
          else
            (case user_me token of
               Raises \<Rightarrow> False
             | Returns response \<Rightarrow>
                 if status_code response = 200 then
                   (case json response of None \<Rightarrow> False | Some user_data \<Rightarrow> True)
                 else False))"

text \<open>
  \<open>exchange_code_for_token\<close> (app.py 151-191); \<open>token_get\<close> is the request to the
  token endpoint with the application id, the secret and the code. The result is the
  returned boolean and the object's state afterwards: the access token is stored before
  the connection is tested. \<open>response_data['access_token'][0]\<close> and
  \<open>response_data.get('expires', ['3600'])[0]\<close> raise on an empty list.
\<close>

definition exchange_code_for_token ::
  "deezer_oauth \<Rightarrow> (string \<Rightarrow> string \<Rightarrow> string \<Rightarrow> token_response outcome)
   \<Rightarrow> (string \<Rightarrow> dz_user response outcome) \<Rightarrow> bool \<times> deezer_oauth" where
  "exchange_code_for_token oauth token_get user_me =
     (case authorization_code oauth of
        None \<Rightarrow> (False, oauth)
      | Some code \<Rightarrow>
          if \<not> truthy code then (False, oauth)
          else
            (case token_get (app_id oauth) (app_secret oauth) code of
               Raises \<Rightarrow> (False, oauth)
             | Returns response \<Rightarrow>
                 if tk_status_code response = 200 then
                   (let response_data = tk_form response
                    in case response_data ''access_token'' of
                         None \<Rightarrow> (False, oauth)
                       | Some [] \<Rightarrow> (False, oauth)
                       | Some (token # _) \<Rightarrow>
                           (let oauth' = oauth \<lparr> access_token := Some token \<rparr>
                            in case response_data ''expires'' of
                                 Some [] \<Rightarrow> (False, oauth')
                               | _ \<Rightarrow> (test_connection oauth' user_me, oauth')))
                 else (False, oauth)))"

section \<open>Reference statements and example data\<close>



text \<open>A Deezer search that answers every query with the same two candidates.\<close>

definition queen_candidates :: "dz_track list" where
  "queen_candidates =
     [\<lparr> dz_id = 1, dz_title = ''Don't Stop'', dz_artist = ''Queen'',
        dz_album = ''Jazz'', dz_duration = 209 \<rparr>,
      \<lparr> dz_id = 2, dz_title = ''Dont Stop'', dz_artist = ''Queen'',
        dz_album = ''Hits'', dz_duration = 210 \<rparr>]"



text \<open>A Spotify client on which every call raises; the examples override single methods.\<close>

definition offline_client :: spotify_client where
  "offline_client =
     \<lparr> current_user = Raises,
       current_user_playlists = Raises,
       get_playlists = (\<lambda>url. Raises),
       playlist_tracks = (\<lambda>playlist_id. Raises),
       get_tracks = (\<lambda>url. Raises),
       search = (\<lambda>q. Raises),
       user_playlist_create = (\<lambda>user name. Raises),
       playlist_add_items = (\<lambda>playlist_id batch. Raises) \<rparr>"

definition yesterday :: sp_track where
  "yesterday =
     \<lparr> sp_id = ''3BQHpFgAp4l80e1XslIjNI'', sp_name = ''Yesterday (Remastered 2009)'',
       sp_artists = [''The Beatles''], sp_album = ''Help!'', sp_duration_ms = 125666,
       sp_type = ''track'' \<rparr>"

definition let_it_be :: sp_track where
  "let_it_be =
     \<lparr> sp_id = ''7iN1s7xHE4ifF5povM6A48'', sp_name = ''Let It Be'',
       sp_artists = [''The Beatles''], sp_album = ''Let It Be'', sp_duration_ms = 243026,
       sp_type = ''track'' \<rparr>"


text \<open>A listed Deezer track to resolve on Spotify, and a listed Spotify track.\<close>

definition yesterday_on_deezer :: deezer_listed where
  "yesterday_on_deezer =
     \<lparr> dl_title = ''Yesterday'', dl_artist = ''The Beatles'', dl_album = ''Help!'',
       dl_duration = 125, dl_deezer_id = 3095543 \<rparr>"

text \<open>A Spotify search whose only candidate carries an empty \<open>artists\<close> list.\<close>

definition artistless :: sp_track where
  "artistless =
     \<lparr> sp_id = ''0aF9m87P8Tja3NUMv4DfHt'', sp_name = ''Yesterday'', sp_artists = [],
       sp_album = ''Covers'', sp_duration_ms = 126000, sp_type = ''track'' \<rparr>"

definition artistless_client :: spotify_client where
  "artistless_client = offline_client \<lparr> search := (\<lambda>q. Returns [artistless]) \<rparr>"

text \<open>A Spotify client and Deezer endpoints that accept every write.\<close>

definition writable_client :: spotify_client where
  "writable_client =
     offline_client \<lparr> current_user := Returns ''user1'',
       user_playlist_create := (\<lambda>user name. Returns ''playlist1''),
       playlist_add_items := (\<lambda>playlist_id batch. Returns ()) \<rparr>"

definition accepting_post_playlists :: "string \<Rightarrow> string \<Rightarrow> dz_created response outcome" where
  "accepting_post_playlists name token =
     Returns \<lparr> status_code = 200, json = Some \<lparr> dz_created_id = Some 99 \<rparr> \<rparr>"

definition accepting_post_tracks :: "int \<Rightarrow> string \<Rightarrow> string \<Rightarrow> unit response outcome" where
  "accepting_post_tracks playlist_id songs token = Returns \<lparr> status_code = 200, json = None \<rparr>"

text \<open>
  Pagination in words. \<open>dz_serves_page\<close>: the request to \<open>url\<close> answers with status
  200 and a body whose tracks are \<open>page\<close> and whose \<open>next\<close> is \<open>nxt\<close>.
  \<open>dz_serves\<close>: from \<open>url\<close> on the platform serves \<open>page\<close> and then the pages of
  \<open>rest\<close>, each at the URL the page before it names as \<open>next\<close>; the \<open>next\<close> of the
  last page is \<open>final\<close>.
\<close>

definition dz_serves_page ::
  "(string \<Rightarrow> dz_list response outcome) \<Rightarrow> string \<Rightarrow> dz_track list \<Rightarrow> string option \<Rightarrow> bool" where
  "dz_serves_page http_get url page nxt =
     (case http_get url of
        Raises \<Rightarrow> False
      | Returns response \<Rightarrow>
          status_code response = 200
          \<and> (case json response of
                None \<Rightarrow> False
              | Some data \<Rightarrow>
                  (case dz_data data of None \<Rightarrow> [] | Some tracks \<Rightarrow> tracks) = page
                  \<and> dz_next data = nxt))"

fun dz_serves ::
  "(string \<Rightarrow> dz_list response outcome) \<Rightarrow> string \<Rightarrow> dz_track list
   \<Rightarrow> (string \<times> dz_track list) list \<Rightarrow> string option \<Rightarrow> bool" where
  "dz_serves http_get url page [] final = dz_serves_page http_get url page final"
| "dz_serves http_get url page ((url', page') # rest) final =
     (truthy url' \<and> dz_serves_page http_get url page (Some url')
      \<and> dz_serves http_get url' page' rest final)"

text \<open>
  \<open>sp_serves\<close>: after the paging object \<open>page\<close> the client's \<open>get\<close> serves the paging
  objects of \<open>rest\<close>, each at the \<open>next\<close> URL of the one before; the last one has no
  \<open>next\<close>.
\<close>

fun sp_serves ::
  "(string \<Rightarrow> 'a sp_page option outcome) \<Rightarrow> 'a sp_page \<Rightarrow> (string \<times> 'a sp_page) list \<Rightarrow> bool" where
  "sp_serves get page [] = (\<not> truthy_opt (sp_next page))"
| "sp_serves get page ((url, page') # rest) =
     (sp_next page = Some url \<and> truthy url \<and> get url = Returns (Some page')
      \<and> sp_serves get page' rest)"

text \<open>An item the track listing leaves out: its track is absent or is not of type \<open>track\<close>.\<close>

definition skipped :: "sp_item \<Rightarrow> bool" where
  "skipped item =
     (case sp_item_track item of None \<Rightarrow> True | Some track \<Rightarrow> sp_type track \<noteq> ''track'')"

text \<open>What the track listing makes of one item.\<close>

definition listed_of_item :: "sp_item \<Rightarrow> spotify_listed option" where
  "listed_of_item item =
     (case sp_item_track item of
        None \<Rightarrow> None
      | Some track \<Rightarrow> if sp_type track = ''track'' then Some (spotify_listed_of track) else None)"

text \<open>
  A Deezer playlist of two pages. The first page is served at the playlist's tracks URL
  and names the second; \<open>second\<close> is what the request to the second URL does.
\<close>

definition jealous_guy :: dz_track where
  "jealous_guy =
     \<lparr> dz_id = 7, dz_title = ''Jealous Guy'', dz_artist = ''John Lennon'',
       dz_album = ''Imagine'', dz_duration = 254 \<rparr>"

definition first_url :: string where
  "first_url = ''https://api.deezer.com/playlist/908622995/tracks''"

definition second_url :: string where
  "second_url = ''https://api.deezer.com/playlist/908622995/tracks?index=25''"

definition deezer_then :: "dz_list response outcome \<Rightarrow> string \<Rightarrow> dz_list response outcome" where
  "deezer_then second url =
     (if url = first_url then
        Returns \<lparr> status_code = 200,
                  json = Some \<lparr> dz_data = Some queen_candidates, dz_next = Some second_url \<rparr> \<rparr>
      else if url = second_url then second
      else Returns \<lparr> status_code = 404, json = None \<rparr>)"

definition second_page :: "dz_list response outcome" where
  "second_page =
     Returns \<lparr> status_code = 200,
               json = Some \<lparr> dz_data = Some [jealous_guy], dz_next = None \<rparr> \<rparr>"

text \<open>
  A Spotify playlist of two pages: a track, an item without track and a podcast
  episode, then one more track.
\<close>

definition episode :: sp_track where
  "episode =
     \<lparr> sp_id = ''512ojhOuo1ktJprKbVcKyQ'', sp_name = ''Episode 1'', sp_artists = [],
       sp_album = ''A Podcast'', sp_duration_ms = 1800000, sp_type = ''episode'' \<rparr>"

definition more_tracks_url :: string where
  "more_tracks_url = ''https://api.spotify.com/v1/playlists/p1/tracks?offset=3''"

definition mixed_first :: "sp_item sp_page" where
  "mixed_first =
     \<lparr> sp_items = [\<lparr> sp_item_track = Some yesterday \<rparr>, \<lparr> sp_item_track = None \<rparr>,
                   \<lparr> sp_item_track = Some episode \<rparr>],
       sp_next = Some more_tracks_url \<rparr>"

definition mixed_second :: "sp_item sp_page" where
  "mixed_second = \<lparr> sp_items = [\<lparr> sp_item_track = Some let_it_be \<rparr>], sp_next = None \<rparr>"

definition mixed_client :: spotify_client where
  "mixed_client =
     offline_client \<lparr> playlist_tracks := (\<lambda>playlist_id. Returns (Some mixed_first)),
       get_tracks := (\<lambda>url. if url = more_tracks_url then Returns (Some mixed_second)
                             else Raises) \<rparr>"

text \<open>A Spotify user with one playlist of their own and one they follow.\<close>

definition own_playlist :: sp_playlist where
  "own_playlist =
     \<lparr> sp_pl_id = ''p1'', sp_pl_name = ''Road Trip'', sp_pl_description = [],
       sp_pl_owner_id = ''user1'', sp_pl_tracks_total = 4 \<rparr>"

definition followed_playlist :: sp_playlist where
  "followed_playlist =
     \<lparr> sp_pl_id = ''37i9dQZF1DXcBWIGoYBM5M'', sp_pl_name = ''Top Hits'',
       sp_pl_description = [], sp_pl_owner_id = ''spotify'', sp_pl_tracks_total = 50 \<rparr>"

definition library_page :: "sp_playlist sp_page" where
  "library_page = \<lparr> sp_items = [followed_playlist, own_playlist], sp_next = None \<rparr>"

definition library_client :: spotify_client where
  "library_client =
     offline_client \<lparr> current_user := Returns ''user1'',
       current_user_playlists := Returns (Some library_page) \<rparr>"

text \<open>
  The exchange as the specification words it: it fails exactly on a status outside
  200-299 or on a response without the access-token field.
\<close>

definition claimed_exchange_fails :: "token_response \<Rightarrow> bool" where
  "claimed_exchange_fails response =
     (\<not> (200 \<le> tk_status_code response \<and> tk_status_code response < 300)
      \<or> tk_form response ''access_token'' = None)"

text \<open>
  An object holding an authorization code; a token endpoint that grants a token with a
  given status; a \<open>/user/me\<close> that knows the user and one that answers 401.
\<close>

definition with_code :: deezer_oauth where
  "with_code =
     \<lparr> app_id = ''123456'', app_secret = ''s3cr3t'',
       redirect_uri = ''http://localhost:8080/deezer_callback'',
       access_token = None, authorization_code = Some ''fr0a1b2c'' \<rparr>"

definition granted :: "int \<Rightarrow> token_response" where
  "granted status =
     \<lparr> tk_status_code = status,
       tk_form = [''access_token'' \<mapsto> [''frXyZ''], ''expires'' \<mapsto> [''3600'']] \<rparr>"

definition granting :: "int \<Rightarrow> string \<Rightarrow> string \<Rightarrow> string \<Rightarrow> token_response outcome" where
  "granting status app secret code = Returns (granted status)"

definition known_user :: dz_user where
  "known_user =
     \<lparr> dz_user_name = Some ''nino'', dz_user_email = None, dz_user_country = Some ''FR'' \<rparr>"

definition welcoming :: "string \<Rightarrow> dz_user response outcome" where
  "welcoming token = Returns \<lparr> status_code = 200, json = Some known_user \<rparr>"

definition unauthorized :: "string \<Rightarrow> dz_user response outcome" where
  "unauthorized token = Returns \<lparr> status_code = 401, json = None \<rparr>"

section \<open>Properties\<close>

subsection \<open>Normalisation\<close>

text \<open>
  Claim C7. A string made only of alphanumeric characters and whitespace is returned
  unchanged by the normalisation step \<open>re.sub(r'[^\w\s]', '', s)\<close>, and the step is
  idempotent: normalising a normalised string changes nothing.
\<close>

theorem clean_noop_on_alnum_space:
  "((\<forall>c \<in> set s. isalnum U c \<or> isspace U c) \<longrightarrow> clean U s = s)
   \<and> clean U (clean U s) = clean U s"
proof
  show "(\<forall>c \<in> set s. isalnum U c \<or> isspace U c) \<longrightarrow> clean U s = s"
    by (auto simp: clean_def is_word_def filter_id_conv)
next
  show "clean U (clean U s) = clean U s"
    by (simp add: clean_def)
qed

lemmas ascii_eval = ascii_tables_def ascii_lower_char_def is_word_def clean_def

theorem clean_noop_on_alnum_space_witness:
  "clean ascii_tables ''Abbey Road 1969'' = ''Abbey Road 1969''
   \<and> clean ascii_tables (clean ascii_tables ''Don't Stop (Live)'') = ''Dont Stop Live''"
  using clean_noop_on_alnum_space [where s = "''Abbey Road 1969''" and U = ascii_tables]
    clean_noop_on_alnum_space [where s = "''Don't Stop (Live)''" and U = ascii_tables]
  by (simp add: ascii_eval)

subsection \<open>Track matching\<close>









subsection \<open>The resolving loops\<close>

lemma map_filter_length_split:
  "length (List.map_filter f xs) + length (filter (\<lambda>x. f x = None) xs) = length xs"
  by (induction xs) (auto simp: List.map_filter_simps split: option.splits)

lemma resolve_on_deezer_acc:
  "resolve_on_deezer U ds tracks found_tracks not_found =
     (found_tracks @ map dm_id
        (List.map_filter (\<lambda>t. search_deezer_track U ds (sl_title t) (sl_artist t)) tracks),
      not_found @ map (\<lambda>t. sl_artist t @ '' - '' @ sl_title t)
        (filter (\<lambda>t. search_deezer_track U ds (sl_title t) (sl_artist t) = None) tracks))"
  by (induction tracks arbitrary: found_tracks not_found)
     (auto simp: List.map_filter_simps split: option.splits)

lemma resolve_on_spotify_acc:
  "\<forall>t \<in> set tracks. \<forall>m. search_spotify_track U sp (dl_title t) (dl_artist t) = Some m
       \<longrightarrow> sm_artists m \<noteq> [] \<Longrightarrow>
   resolve_on_spotify U sp tracks found_tracks not_found =
     Inr (found_tracks @ map sm_id
        (List.map_filter (\<lambda>t. search_spotify_track U sp (dl_title t) (dl_artist t)) tracks),
      not_found @ map (\<lambda>t. dl_artist t @ '' - '' @ dl_title t)
        (filter (\<lambda>t. search_spotify_track U sp (dl_title t) (dl_artist t) = None) tracks))"
proof (induction tracks arbitrary: found_tracks not_found)
  case Nil
  then show ?case by (simp add: List.map_filter_simps)
next
  case (Cons t tracks)
  show ?case
  proof (cases "search_spotify_track U sp (dl_title t) (dl_artist t)")
    case None
    with Cons show ?thesis by (simp add: List.map_filter_simps)
  next
    case (Some m)
    with Cons.prems have "sm_artists m \<noteq> []" by simp
    then obtain a as where "sm_artists m = a # as" by (cases "sm_artists m") auto
    with Some Cons show ?thesis by (simp add: List.map_filter_simps)
  qed
qed

text \<open>
  What the two loops do when they run to their end. From Spotify to Deezer the loop
  always does, and puts every source track in exactly one of the two lists: the ids of
  the tracks the search resolved, in source order, and the labels of the tracks it did
  not resolve. From Deezer to Spotify the same holds as long as every match found has
  an artist to print.
\<close>

lemma resolving_loops_classify:
  "resolve_on_deezer U ds tracks [] [] =
     (map dm_id (List.map_filter (\<lambda>t. search_deezer_track U ds (sl_title t) (sl_artist t)) tracks),
      map (\<lambda>t. sl_artist t @ '' - '' @ sl_title t)
        (filter (\<lambda>t. search_deezer_track U ds (sl_title t) (sl_artist t) = None) tracks))
   \<and> length (fst (resolve_on_deezer U ds tracks [] []))
       + length (snd (resolve_on_deezer U ds tracks [] [])) = length tracks
   \<and> ((\<forall>t \<in> set tracks'. \<forall>m. search_spotify_track U sp (dl_title t) (dl_artist t) = Some m
          \<longrightarrow> sm_artists m \<noteq> [])
      \<longrightarrow> (\<exists>found_tracks not_found.
             resolve_on_spotify U sp tracks' [] [] = Inr (found_tracks, not_found)
             \<and> found_tracks = map sm_id
                 (List.map_filter (\<lambda>t. search_spotify_track U sp (dl_title t) (dl_artist t)) tracks')
             \<and> not_found = map (\<lambda>t. dl_artist t @ '' - '' @ dl_title t)
                 (filter (\<lambda>t. search_spotify_track U sp (dl_title t) (dl_artist t) = None) tracks')
             \<and> length found_tracks + length not_found = length tracks'))"
proof (intro conjI impI)
  show "resolve_on_deezer U ds tracks [] [] =
     (map dm_id (List.map_filter (\<lambda>t. search_deezer_track U ds (sl_title t) (sl_artist t)) tracks),
      map (\<lambda>t. sl_artist t @ '' - '' @ sl_title t)
        (filter (\<lambda>t. search_deezer_track U ds (sl_title t) (sl_artist t) = None) tracks))"
    by (simp add: resolve_on_deezer_acc)
  show "length (fst (resolve_on_deezer U ds tracks [] []))
       + length (snd (resolve_on_deezer U ds tracks [] [])) = length tracks"
    by (simp add: resolve_on_deezer_acc map_filter_length_split)
next
  assume a: "\<forall>t \<in> set tracks'. \<forall>m. search_spotify_track U sp (dl_title t) (dl_artist t) = Some m
          \<longrightarrow> sm_artists m \<noteq> []"
  show "\<exists>found_tracks not_found.
             resolve_on_spotify U sp tracks' [] [] = Inr (found_tracks, not_found)
             \<and> found_tracks = map sm_id
                 (List.map_filter (\<lambda>t. search_spotify_track U sp (dl_title t) (dl_artist t)) tracks')
             \<and> not_found = map (\<lambda>t. dl_artist t @ '' - '' @ dl_title t)
                 (filter (\<lambda>t. search_spotify_track U sp (dl_title t) (dl_artist t) = None) tracks')
             \<and> length found_tracks + length not_found = length tracks'"
    using resolve_on_spotify_acc [OF a, of "[]" "[]"]
    by (simp add: map_filter_length_split)
qed

text \<open>
  Claim C8. Every source track of a conversion run is classified into exactly one of
  the resolved-id list and the unresolved list. The Deezer-to-Spotify loop breaks this:
  after appending the id it prints \<open>spotify_track['artists'][0]\<close> (app.py 677), and
  when the search returns a candidate without artists (which only the fallback can
  select) the subscript raises \<open>IndexError\<close>. Nothing catches it, so the run ends
  with the track in neither list. The track listing guards the same subscript
  (\<open>artists[0] if artists else ''\<close>, app.py 428).
\<close>

theorem artistless_match_aborts_conversion:
  "search_spotify_track ascii_tables (Some artistless_client) ''Yesterday'' ''The Beatles'' =
     Some \<lparr> sm_id = ''0aF9m87P8Tja3NUMv4DfHt'', sm_title = ''Yesterday'', sm_artists = [],
            sm_album = ''Covers'', sm_duration = 126 \<rparr>
   \<and> resolve_on_spotify ascii_tables (Some artistless_client) [yesterday_on_deezer] [] [] =
     Inl IndexError"
  by code_simp

subsection \<open>Batched playlist creation\<close>


lemma ceiling_hundred: "\<lceil>real k / 100\<rceil> = int ((k + 99) div 100)"
proof -
  have "\<lceil>real k / 100\<rceil> = \<lceil>real_of_int (int k) / real_of_int 100\<rceil>" by simp
  also have "\<dots> = - (- int k div 100)" by (rule ceiling_divide_eq_div)
  also have "\<dots> = int ((k + 99) div 100)" by (simp add: zdiv_int)
  finally show ?thesis .
qed

lemma batches_step_n: "0 < (n::nat) \<Longrightarrow> (n + 99) div 100 = Suc ((n - 100 + 99) div 100)"
proof (cases "n < 100")
  case True
  assume "0 < n"
  with True have "(n + 99) div 100 = 1" by simp
  with True show ?thesis by simp
next
  case False
  then obtain m where m: "n = m + 100" by (metis add.commute le_Suc_ex not_less)
  show ?thesis unfolding m by simp
qed

lemma batches_step:
  "i < length ids \<Longrightarrow> (length ids - i + 99) div 100 = Suc ((length ids - (i + 100) + 99) div 100)"
  using batches_step_n [of "length ids - i"] by simp

lemma take_drop_step: "take 100 (drop i ids) @ drop (i + 100) ids = drop i ids"
proof -
  have "drop (i + 100) ids = drop 100 (drop i ids)" by (simp add: add.commute)
  then show ?thesis by (simp only: append_take_drop_id)
qed

lemma add_items_loop_unfold:
  "playlist_add_items client pid (take 100 (drop i ids)) = Returns u \<Longrightarrow> i < length ids \<Longrightarrow>
   add_items_loop client pid ids i calls =
     add_items_loop client pid ids (i + 100) (calls @ [(pid, take 100 (drop i ids))])"
  by (subst add_items_loop.simps) (simp add: Let_def)

lemma add_items_loop_done:
  "\<not> i < length ids \<Longrightarrow> add_items_loop client pid ids i calls = (True, calls)"
  by (subst add_items_loop.simps) simp

lemma add_items_loop_ok:
  "(\<And>batch. playlist_add_items client pid batch = Returns ()) \<Longrightarrow>
   fst (add_items_loop client pid ids i calls)"
proof (induction client pid ids i calls rule: add_items_loop.induct)
  case (1 client playlist_id track_ids i calls)
  show ?case
  proof (cases "i < length track_ids")
    case False
    then show ?thesis by (simp add: add_items_loop_done)
  next
    case True
    have ok: "playlist_add_items client playlist_id (take 100 (drop i track_ids)) = Returns ()"
      by (rule "1.prems")
    from "1.IH" [OF True refl ok "1.prems"] show ?thesis
      by (simp only: add_items_loop_unfold [OF ok True])
  qed
qed

lemma add_items_loop_length:
  "(\<And>batch. playlist_add_items client pid batch = Returns ()) \<Longrightarrow>
   length (snd (add_items_loop client pid ids i calls)) =
     length calls + (length ids - i + 99) div 100"
proof (induction client pid ids i calls rule: add_items_loop.induct)
  case (1 client playlist_id track_ids i calls)
  show ?case
  proof (cases "i < length track_ids")
    case False
    then show ?thesis by (simp add: add_items_loop_done)
  next
    case True
    have ok: "playlist_add_items client playlist_id (take 100 (drop i track_ids)) = Returns ()"
      by (rule "1.prems")
    have "length (snd (add_items_loop client playlist_id track_ids (i + 100)
            (calls @ [(playlist_id, take 100 (drop i track_ids))]))) =
          Suc (length calls) + (length track_ids - (i + 100) + 99) div 100"
      using "1.IH" [OF True refl ok "1.prems"] by simp
    then show ?thesis
      by (simp only: add_items_loop_unfold [OF ok True] batches_step [OF True])
  qed
qed

lemma add_items_loop_concat:
  "(\<And>batch. playlist_add_items client pid batch = Returns ()) \<Longrightarrow>
   concat (map snd (snd (add_items_loop client pid ids i calls))) =
     concat (map snd calls) @ drop i ids"
proof (induction client pid ids i calls rule: add_items_loop.induct)
  case (1 client playlist_id track_ids i calls)
  show ?case
  proof (cases "i < length track_ids")
    case False
    then show ?thesis by (simp add: add_items_loop_done)
  next
    case True
    have ok: "playlist_add_items client playlist_id (take 100 (drop i track_ids)) = Returns ()"
      by (rule "1.prems")
    have "concat (map snd (snd (add_items_loop client playlist_id track_ids (i + 100)
            (calls @ [(playlist_id, take 100 (drop i track_ids))])))) =
          concat (map snd calls) @ (take 100 (drop i track_ids) @ drop (i + 100) track_ids)"
      using "1.IH" [OF True refl ok "1.prems"] by simp
    then show ?thesis
      by (simp only: add_items_loop_unfold [OF ok True] take_drop_step)
  qed
qed

lemma add_items_loop_batches:
  "(\<And>batch. playlist_add_items client pid batch = Returns ()) \<Longrightarrow>
   \<forall>call \<in> set calls. length (snd call) \<le> 100 \<Longrightarrow>
   \<forall>call \<in> set (snd (add_items_loop client pid ids i calls)). length (snd call) \<le> 100"
proof (induction client pid ids i calls rule: add_items_loop.induct)
  case (1 client playlist_id track_ids i calls)
  show ?case
  proof (cases "i < length track_ids")
    case False
    with "1.prems"(2) show ?thesis by (simp add: add_items_loop_done)
  next
    case True
    have ok: "playlist_add_items client playlist_id (take 100 (drop i track_ids)) = Returns ()"
      by (rule "1.prems")
    have b: "\<forall>call \<in> set (calls @ [(playlist_id, take 100 (drop i track_ids))]).
        length (snd call) \<le> 100"
      using "1.prems"(2) by simp
    from "1.IH" [OF True refl ok "1.prems"(1) b] show ?thesis
      by (simp only: add_items_loop_unfold [OF ok True])
  qed
qed

lemma add_items_loop_raises:
  "playlist_add_items client pid (take 100 (drop i ids)) = Raises \<Longrightarrow> i < length ids \<Longrightarrow>
   add_items_loop client pid ids i calls = (False, calls @ [(pid, take 100 (drop i ids))])"
  by (subst add_items_loop.simps) (simp add: Let_def)

lemma add_items_loop_length_le:
  "length (snd (add_items_loop client pid ids i calls)) \<le>
     length calls + (length ids - i + 99) div 100"
proof (induction client pid ids i calls rule: add_items_loop.induct)
  case (1 client playlist_id track_ids i calls)
  show ?case
  proof (cases "i < length track_ids")
    case False
    then show ?thesis by (simp add: add_items_loop_done)
  next
    case True
    show ?thesis
    proof (cases "playlist_add_items client playlist_id (take 100 (drop i track_ids))")
      case Raises
      show ?thesis
        by (simp add: add_items_loop_raises [OF Raises True] batches_step [OF True])
    next
      case (Returns u)
      have "length (snd (add_items_loop client playlist_id track_ids (i + 100)
              (calls @ [(playlist_id, take 100 (drop i track_ids))]))) \<le>
            Suc (length calls) + (length track_ids - (i + 100) + 99) div 100"
        using "1.IH" [OF True refl Returns] by simp
      then show ?thesis
        by (simp only: add_items_loop_unfold [OF Returns True] batches_step [OF True])
    qed
  qed
qed

lemma create_spotify_playlist_calls_le:
  "int (length (snd (create_spotify_playlist spotify name track_ids))) \<le>
     \<lceil>real (length track_ids) / 100\<rceil>"
proof -
  have "length (snd (create_spotify_playlist spotify name track_ids)) \<le>
      (length track_ids + 99) div 100"
    using add_items_loop_length_le [of _ _ track_ids 0 "[]"]
    by (simp add: create_spotify_playlist_def split: option.splits outcome.splits)
  then show ?thesis
    by (simp add: ceiling_hundred)
qed

text \<open>
  Claim C3. When the playlist is created and the platform accepts the calls,
  \<open>create_spotify_playlist\<close> issues exactly \<open>ceil(K/100)\<close> add-track calls for \<open>K\<close>
  track ids, each with at most 100 ids, which together carry the ids in order; and
  \<open>create_deezer_playlist\<close> issues exactly one add-track call for a non-empty list,
  carrying all ids joined by commas. Whatever the platform answers,
  \<open>create_spotify_playlist\<close> never issues more than \<open>ceil(K/100)\<close> add-track calls.
\<close>

theorem add_track_calls_batched:
  "(current_user client = Returns user_id
      \<and> user_playlist_create client user_id name = Returns playlist_id
      \<and> (\<forall>batch. playlist_add_items client playlist_id batch = Returns ())
    \<longrightarrow> int (length (snd (create_spotify_playlist (Some client) name track_ids))) =
            \<lceil>real (length track_ids) / 100\<rceil>
        \<and> (\<forall>call \<in> set (snd (create_spotify_playlist (Some client) name track_ids)).
              length (snd call) \<le> 100)
        \<and> concat (map snd (snd (create_spotify_playlist (Some client) name track_ids))) =
            track_ids)
   \<and> (truthy token \<and> post_playlists name' token = Returns response
      \<and> status_code response = 200 \<and> json response = Some playlist_data
      \<and> dz_created_id playlist_data = Some deezer_id \<and> deezer_id \<noteq> 0 \<and> deezer_ids \<noteq> []
    \<longrightarrow> snd (create_deezer_playlist (Some token) post_playlists post_tracks name' deezer_ids) =
          [(deezer_id, join '','' (map str_int deezer_ids))])
   \<and> int (length (snd (create_spotify_playlist spotify name track_ids))) \<le>
       \<lceil>real (length track_ids) / 100\<rceil>"
proof (intro conjI impI)
  assume a: "current_user client = Returns user_id
      \<and> user_playlist_create client user_id name = Returns playlist_id
      \<and> (\<forall>batch. playlist_add_items client playlist_id batch = Returns ())"
  then have ok: "\<And>batch. playlist_add_items client playlist_id batch = Returns ()"
    by simp
  have c: "snd (create_spotify_playlist (Some client) name track_ids) =
      snd (add_items_loop client playlist_id track_ids 0 [])"
    using a by (simp add: create_spotify_playlist_def add_items_loop_done)
  show "int (length (snd (create_spotify_playlist (Some client) name track_ids))) =
            \<lceil>real (length track_ids) / 100\<rceil>"
    using add_items_loop_length [OF ok, of track_ids 0 "[]"] by (simp add: c ceiling_hundred)
  show "\<forall>call \<in> set (snd (create_spotify_playlist (Some client) name track_ids)).
              length (snd call) \<le> 100"
    using add_items_loop_batches [OF ok, of "[]" track_ids 0] unfolding c by simp
  show "concat (map snd (snd (create_spotify_playlist (Some client) name track_ids))) =
            track_ids"
    using add_items_loop_concat [OF ok, of track_ids 0 "[]"] by (simp add: c)
next
  assume "truthy token \<and> post_playlists name' token = Returns response
      \<and> status_code response = 200 \<and> json response = Some playlist_data
      \<and> dz_created_id playlist_data = Some deezer_id \<and> deezer_id \<noteq> 0 \<and> deezer_ids \<noteq> []"
  then show "snd (create_deezer_playlist (Some token) post_playlists post_tracks name' deezer_ids) =
          [(deezer_id, join '','' (map str_int deezer_ids))]"
    by (simp add: create_deezer_playlist_def Let_def split: outcome.splits)
next
  show "int (length (snd (create_spotify_playlist spotify name track_ids))) \<le>
       \<lceil>real (length track_ids) / 100\<rceil>"
    by (rule create_spotify_playlist_calls_le)
qed

theorem add_track_calls_batched_witness:
  "int (length (snd (create_spotify_playlist (Some writable_client) ''Mix''
           (replicate 250 ''4uLU6hMCjMI75M1A2tKUQC'')))) = 3
   \<and> snd (create_deezer_playlist (Some ''token'') accepting_post_playlists accepting_post_tracks
           ''Mix'' [3135556, 12]) = [(99, ''3135556,12'')]"
proof -
  let ?response = "\<lparr> status_code = 200, json = Some \<lparr> dz_created_id = Some 99 \<rparr> \<rparr>"
  have h1: "current_user writable_client = Returns ''user1''
      \<and> user_playlist_create writable_client ''user1'' ''Mix'' = Returns ''playlist1''
      \<and> (\<forall>batch. playlist_add_items writable_client ''playlist1'' batch = Returns ())"
    by (simp add: writable_client_def offline_client_def)
  have h2: "truthy ''token'' \<and> accepting_post_playlists ''Mix'' ''token'' = Returns ?response
      \<and> status_code ?response = 200 \<and> json ?response = Some \<lparr> dz_created_id = Some 99 \<rparr>
      \<and> dz_created_id \<lparr> dz_created_id = Some 99 \<rparr> = Some 99 \<and> (99::int) \<noteq> 0
      \<and> [3135556, 12 :: int] \<noteq> []"
    by (simp add: truthy_def accepting_post_playlists_def)
  have j: "join '','' (map str_int [3135556, 12]) = ''3135556,12''"
    by (simp add: str_int_def str_nat.simps)
  have c: "\<lceil>real (length (replicate 250 ''4uLU6hMCjMI75M1A2tKUQC'')) / 100\<rceil> = 3"
    by simp
  note batched = add_track_calls_batched [where client = writable_client
      and user_id = "''user1''" and name = "''Mix''" and playlist_id = "''playlist1''"
      and track_ids = "replicate 250 ''4uLU6hMCjMI75M1A2tKUQC''"
      and token = "''token''" and post_playlists = accepting_post_playlists
      and post_tracks = accepting_post_tracks and name' = "''Mix''"
      and response = ?response and playlist_data = "\<lparr> dz_created_id = Some 99 \<rparr>"
      and deezer_id = 99 and deezer_ids = "[3135556, 12]"]
  from batched [THEN conjunct1] h1
  have "int (length (snd (create_spotify_playlist (Some writable_client) ''Mix''
           (replicate 250 ''4uLU6hMCjMI75M1A2tKUQC'')))) =
         \<lceil>real (length (replicate 250 ''4uLU6hMCjMI75M1A2tKUQC'')) / 100\<rceil>
     \<and> (\<forall>call \<in> set (snd (create_spotify_playlist (Some writable_client) ''Mix''
           (replicate 250 ''4uLU6hMCjMI75M1A2tKUQC''))). length (snd call) \<le> 100)
     \<and> concat (map snd (snd (create_spotify_playlist (Some writable_client) ''Mix''
           (replicate 250 ''4uLU6hMCjMI75M1A2tKUQC'')))) =
         replicate 250 ''4uLU6hMCjMI75M1A2tKUQC''"
    by (rule mp)
  then have s: "int (length (snd (create_spotify_playlist (Some writable_client) ''Mix''
           (replicate 250 ''4uLU6hMCjMI75M1A2tKUQC'')))) =
         \<lceil>real (length (replicate 250 ''4uLU6hMCjMI75M1A2tKUQC'')) / 100\<rceil>"
    by (rule conjunct1)
  from batched [THEN conjunct2, THEN conjunct1] h2
  have d: "snd (create_deezer_playlist (Some ''token'') accepting_post_playlists
           accepting_post_tracks ''Mix'' [3135556, 12]) =
         [(99, join '','' (map str_int [3135556, 12]))]"
    by (rule mp)
  from s d show ?thesis
    unfolding c j by (rule conjI)
qed

subsection \<open>Pagination\<close>

lemma deezer_loop_end:
  "\<not> truthy url \<Longrightarrow> deezer_tracks_loop http_get url tracks = Some tracks"
  by (subst deezer_tracks_loop.simps) simp

lemma deezer_loop_page:
  "truthy url \<Longrightarrow> dz_serves_page http_get url page nxt \<Longrightarrow>
   deezer_tracks_loop http_get url tracks =
     (case nxt of
        None \<Rightarrow> Some (tracks @ map deezer_listed_of page)
      | Some url' \<Rightarrow> deezer_tracks_loop http_get url' (tracks @ map deezer_listed_of page))"
  by (subst deezer_tracks_loop.simps)
     (auto simp: dz_serves_page_def Let_def split: outcome.splits option.splits)

lemma deezer_loop_serves:
  "truthy url \<Longrightarrow> dz_serves http_get url page rest final \<Longrightarrow>
   deezer_tracks_loop http_get url tracks =
     (case final of
        None \<Rightarrow> Some (tracks @ concat (map (map deezer_listed_of) (page # map snd rest)))
      | Some url' \<Rightarrow> deezer_tracks_loop http_get url'
          (tracks @ concat (map (map deezer_listed_of) (page # map snd rest))))"
proof (induction rest arbitrary: url page tracks)
  case Nil
  then show ?case by (simp add: deezer_loop_page split: option.splits)
next
  case (Cons p rest)
  obtain url' page' where p: "p = (url', page')" by (cases p)
  from Cons.prems have t: "truthy url'" and s: "dz_serves_page http_get url page (Some url')"
    and r: "dz_serves http_get url' page' rest final"
    by (simp_all add: p)
  have "deezer_tracks_loop http_get url tracks =
      deezer_tracks_loop http_get url' (tracks @ map deezer_listed_of page)"
    using deezer_loop_page [OF Cons.prems(1) s] by simp
  also note Cons.IH [OF t r]
  finally show ?case by (simp add: p split: option.splits)
qed

lemma deezer_loop_status:
  "truthy url \<Longrightarrow> http_get url = Returns response \<Longrightarrow> status_code response \<noteq> 200 \<Longrightarrow>
   deezer_tracks_loop http_get url tracks =
     (if status_code response = 403 \<or> status_code response = 404 then Some [] else Some tracks)"
  by (subst deezer_tracks_loop.simps) simp

lemma spotify_collect_map_filter:
  "spotify_collect tracks items = tracks @ List.map_filter listed_of_item items"
  by (induction items arbitrary: tracks)
     (auto simp: List.map_filter_simps listed_of_item_def split: option.splits)

lemma spotify_loop_serves:
  "sp_serves (get_tracks client) page rest \<Longrightarrow>
   spotify_tracks_loop client (Some page) tracks =
     Some (tracks @ concat (map (\<lambda>p. spotify_collect [] (sp_items p)) (page # map snd rest)))"
proof (induction rest arbitrary: page tracks)
  case Nil
  then show ?case
    by (subst spotify_tracks_loop.simps)
       (simp add: Let_def spotify_collect_map_filter)
next
  case (Cons p rest)
  obtain url page' where p: "p = (url, page')" by (cases p)
  from Cons.prems have n: "sp_next page = Some url" and t: "truthy url"
    and g: "get_tracks client url = Returns (Some page')"
    and r: "sp_serves (get_tracks client) page' rest"
    by (simp_all add: p)
  have "spotify_tracks_loop client (Some page) tracks =
      spotify_tracks_loop client (Some page') (spotify_collect tracks (sp_items page))"
    by (subst spotify_tracks_loop.simps) (simp add: Let_def spotify_next_tracks_def n t g)
  also note Cons.IH [OF r]
  finally show ?case
    by (simp add: p spotify_collect_map_filter)
qed

lemma playlists_collect_owned:
  "current_user client = Returns me \<Longrightarrow>
   playlists_collect client playlists items =
     Returns (playlists @ map playlist_listed_of (filter (\<lambda>p. sp_pl_owner_id p = me) items))"
  by (induction items arbitrary: playlists) simp_all

lemma playlists_loop_serves:
  "current_user client = Returns me \<Longrightarrow> sp_serves (get_playlists client) page rest \<Longrightarrow>
   spotify_playlists_loop client (Some page) playlists =
     Some (playlists @ map playlist_listed_of
       (filter (\<lambda>p. sp_pl_owner_id p = me) (concat (map sp_items (page # map snd rest)))))"
proof (induction rest arbitrary: page playlists)
  case Nil
  then show ?case
    by (subst spotify_playlists_loop.simps) (simp add: playlists_collect_owned)
next
  case (Cons p rest)
  obtain url page' where p: "p = (url, page')" by (cases p)
  from Cons.prems have n: "sp_next page = Some url" and t: "truthy url"
    and g: "get_playlists client url = Returns (Some page')"
    and r: "sp_serves (get_playlists client) page' rest"
    by (simp_all add: p)
  have "spotify_playlists_loop client (Some page) playlists =
      spotify_playlists_loop client (Some page')
        (playlists @ map playlist_listed_of (filter (\<lambda>p. sp_pl_owner_id p = me) (sp_items page)))"
    by (subst spotify_playlists_loop.simps)
       (simp add: playlists_collect_owned [OF Cons.prems(1)] spotify_next_playlists_def n t g)
  also note Cons.IH [OF Cons.prems(1) r]
  finally show ?case
    by (simp add: p)
qed

lemma map_filter_concat:
  "List.map_filter f (concat xss) = concat (map (List.map_filter f) xss)"
  by (induction xss) (simp_all add: List.map_filter_def)

lemma map_filter_listed:
  "List.map_filter listed_of_item items =
     map (\<lambda>item. spotify_listed_of (the (sp_item_track item)))
       (filter (\<lambda>item. \<not> skipped item) items)"
  by (induction items)
     (auto simp: List.map_filter_simps listed_of_item_def skipped_def split: option.splits)

lemma filter_split_length:
  "length (filter (\<lambda>x. \<not> P x) xs) + length (filter P xs) = length xs"
  by (induction xs) auto

lemma first_url_truthy: "truthy (DEEZER_BASE_URL @ ''/playlist/'' @ playlist_id @ ''/tracks'')"
  by (simp add: truthy_def)

text \<open>
  Claim C4. When the platform serves a playlist as a chain of pages, each naming the
  next and the last naming none, the listing returns the tracks of all pages, in page
  order. On Spotify the tracks of a page are its items that are tracks; a first result
  of \<open>None\<close> is the chain of no page and gives the empty list. On Deezer the first
  request is always sent, so an empty playlist is one page without tracks.
\<close>

theorem listing_returns_all_pages:
  "(dz_serves http_get (DEEZER_BASE_URL @ ''/playlist/'' @ playlist_id @ ''/tracks'')
        page rest final \<and> \<not> truthy_opt final
    \<longrightarrow> get_deezer_playlist_tracks http_get playlist_id =
          Some (concat (map (map deezer_listed_of) (page # map snd rest))))
   \<and> (playlist_tracks client spotify_id = Returns (Some first)
        \<and> sp_serves (get_tracks client) first others
    \<longrightarrow> get_spotify_playlist_tracks (Some client) spotify_id =
          Some (concat (map (\<lambda>p. spotify_collect [] (sp_items p)) (first # map snd others))))
   \<and> (playlist_tracks client spotify_id = Returns None
    \<longrightarrow> get_spotify_playlist_tracks (Some client) spotify_id = Some [])"
proof (intro conjI impI)
  assume a: "dz_serves http_get (DEEZER_BASE_URL @ ''/playlist/'' @ playlist_id @ ''/tracks'')
        page rest final \<and> \<not> truthy_opt final"
  then have s: "dz_serves http_get (DEEZER_BASE_URL @ ''/playlist/'' @ playlist_id @ ''/tracks'')
        page rest final"
    and f: "\<not> truthy_opt final"
    by simp_all
  show "get_deezer_playlist_tracks http_get playlist_id =
          Some (concat (map (map deezer_listed_of) (page # map snd rest)))"
  proof (cases final)
    case None
    with deezer_loop_serves [OF first_url_truthy s, of "[]"] show ?thesis
      by (simp add: get_deezer_playlist_tracks_def)
  next
    case (Some url')
    with f have "\<not> truthy url'" by simp
    with Some deezer_loop_serves [OF first_url_truthy s, of "[]"] show ?thesis
      by (simp add: get_deezer_playlist_tracks_def deezer_loop_end)
  qed
next
  assume "playlist_tracks client spotify_id = Returns (Some first)
        \<and> sp_serves (get_tracks client) first others"
  then show "get_spotify_playlist_tracks (Some client) spotify_id =
          Some (concat (map (\<lambda>p. spotify_collect [] (sp_items p)) (first # map snd others)))"
    using spotify_loop_serves [of client first others "[]"]
    by (simp add: get_spotify_playlist_tracks_def)
next
  assume "playlist_tracks client spotify_id = Returns None"
  then show "get_spotify_playlist_tracks (Some client) spotify_id = Some []"
    by (subst get_spotify_playlist_tracks_def) (simp add: spotify_tracks_loop.simps)
qed

theorem listing_returns_all_pages_witness:
  "get_deezer_playlist_tracks (deezer_then second_page) ''908622995'' =
     Some (map deezer_listed_of (queen_candidates @ [jealous_guy]))
   \<and> get_spotify_playlist_tracks (Some mixed_client) ''p1'' =
     Some [spotify_listed_of yesterday, spotify_listed_of let_it_be]"
proof -
  have h1: "dz_serves (deezer_then second_page)
        (DEEZER_BASE_URL @ ''/playlist/'' @ ''908622995'' @ ''/tracks'')
        queen_candidates [(second_url, [jealous_guy])] None \<and> \<not> truthy_opt None"
    by code_simp
  have h2: "playlist_tracks mixed_client ''p1'' = Returns (Some mixed_first)
        \<and> sp_serves (get_tracks mixed_client) mixed_first [(more_tracks_url, mixed_second)]"
    by code_simp
  note pages = listing_returns_all_pages [where http_get = "deezer_then second_page"
      and playlist_id = "''908622995''" and page = queen_candidates
      and rest = "[(second_url, [jealous_guy])]" and final = None
      and client = mixed_client and spotify_id = "''p1''" and first = mixed_first
      and others = "[(more_tracks_url, mixed_second)]"]
  from pages [THEN conjunct1] h1
  have d: "get_deezer_playlist_tracks (deezer_then second_page) ''908622995'' =
      Some (concat (map (map deezer_listed_of)
        (queen_candidates # map snd [(second_url, [jealous_guy])])))"
    by (rule mp)
  from pages [THEN conjunct2, THEN conjunct1] h2
  have s: "get_spotify_playlist_tracks (Some mixed_client) ''p1'' =
      Some (concat (map (\<lambda>p. spotify_collect [] (sp_items p))
        (mixed_first # map snd [(more_tracks_url, mixed_second)])))"
    by (rule mp)
  have e1: "concat (map (map deezer_listed_of)
        (queen_candidates # map snd [(second_url, [jealous_guy])])) =
      map deezer_listed_of (queen_candidates @ [jealous_guy])"
    by simp
  have e2: "concat (map (\<lambda>p. spotify_collect [] (sp_items p))
        (mixed_first # map snd [(more_tracks_url, mixed_second)])) =
      [spotify_listed_of yesterday, spotify_listed_of let_it_be]"
    by code_simp
  from d s show ?thesis
    unfolding e1 e2 by (rule conjI)
qed

text \<open>
  Claim C5, as the code has it. When a page after the first answers with a status other
  than 200, the fetch returns the tracks of the pages fetched so far if the status is
  neither 403 nor 404 (the loop is left with \<open>break\<close>), and the empty list if it is
  403 or 404 (the playlist is reported private or missing).
\<close>

theorem later_page_failure_result:
  "dz_serves http_get (DEEZER_BASE_URL @ ''/playlist/'' @ playlist_id @ ''/tracks'')
        page rest (Some failing_url) \<and> truthy failing_url
     \<and> http_get failing_url = Returns response \<and> status_code response \<noteq> 200
   \<longrightarrow> get_deezer_playlist_tracks http_get playlist_id =
         (if status_code response = 403 \<or> status_code response = 404 then Some []
          else Some (concat (map (map deezer_listed_of) (page # map snd rest))))"
proof
  assume a: "dz_serves http_get (DEEZER_BASE_URL @ ''/playlist/'' @ playlist_id @ ''/tracks'')
        page rest (Some failing_url) \<and> truthy failing_url
     \<and> http_get failing_url = Returns response \<and> status_code response \<noteq> 200"
  then have "get_deezer_playlist_tracks http_get playlist_id =
      deezer_tracks_loop http_get failing_url
        (concat (map (map deezer_listed_of) (page # map snd rest)))"
    using deezer_loop_serves [OF first_url_truthy, of http_get playlist_id page rest
        "Some failing_url" "[]"]
    by (simp add: get_deezer_playlist_tracks_def)
  with a show "get_deezer_playlist_tracks http_get playlist_id =
         (if status_code response = 403 \<or> status_code response = 404 then Some []
          else Some (concat (map (map deezer_listed_of) (page # map snd rest))))"
    using deezer_loop_status [of failing_url http_get response]
    by simp
qed

theorem later_page_failure_result_witness:
  "get_deezer_playlist_tracks
       (deezer_then (Returns \<lparr> status_code = 500, json = None \<rparr>)) ''908622995'' =
     Some (map deezer_listed_of queen_candidates)
   \<and> get_deezer_playlist_tracks
       (deezer_then (Returns \<lparr> status_code = 403, json = None \<rparr>)) ''908622995'' = Some []"
proof -
  let ?busy = "\<lparr> status_code = 500, json = None :: dz_list option \<rparr>"
  let ?forbidden = "\<lparr> status_code = 403, json = None :: dz_list option \<rparr>"
  have h1: "dz_serves (deezer_then (Returns ?busy))
        (DEEZER_BASE_URL @ ''/playlist/'' @ ''908622995'' @ ''/tracks'')
        queen_candidates [] (Some second_url) \<and> truthy second_url
      \<and> deezer_then (Returns ?busy) second_url = Returns ?busy \<and> status_code ?busy \<noteq> 200"
    by code_simp
  have h2: "dz_serves (deezer_then (Returns ?forbidden))
        (DEEZER_BASE_URL @ ''/playlist/'' @ ''908622995'' @ ''/tracks'')
        queen_candidates [] (Some second_url) \<and> truthy second_url
      \<and> deezer_then (Returns ?forbidden) second_url = Returns ?forbidden
      \<and> status_code ?forbidden \<noteq> 200"
    by code_simp
  have a: "get_deezer_playlist_tracks (deezer_then (Returns ?busy)) ''908622995'' =
      (if status_code ?busy = 403 \<or> status_code ?busy = 404 then Some []
       else Some (concat (map (map deezer_listed_of)
         (queen_candidates # map snd ([] :: (string \<times> dz_track list) list)))))"
    by (rule later_page_failure_result [where http_get = "deezer_then (Returns ?busy)"
      and playlist_id = "''908622995''" and page = queen_candidates and rest = "[]"
      and failing_url = second_url and response = ?busy, THEN mp, OF h1])
  have b: "get_deezer_playlist_tracks (deezer_then (Returns ?forbidden)) ''908622995'' =
      (if status_code ?forbidden = 403 \<or> status_code ?forbidden = 404 then Some []
       else Some (concat (map (map deezer_listed_of)
         (queen_candidates # map snd ([] :: (string \<times> dz_track list) list)))))"
    by (rule later_page_failure_result [where http_get = "deezer_then (Returns ?forbidden)"
      and playlist_id = "''908622995''" and page = queen_candidates and rest = "[]"
      and failing_url = second_url and response = ?forbidden, THEN mp, OF h2])
  from a b show ?thesis by simp
qed

text \<open>
  The claim as worded fails. The first page carries two tracks and names a second page;
  the request for the second page answers 404, or raises, and both times the fetch
  returns the empty list.
\<close>

theorem later_page_failure_counterexample:
  "dz_serves_page (deezer_then (Returns \<lparr> status_code = 404, json = None \<rparr>))
       (DEEZER_BASE_URL @ ''/playlist/'' @ ''908622995'' @ ''/tracks'')
       queen_candidates (Some second_url)
   \<and> get_deezer_playlist_tracks
       (deezer_then (Returns \<lparr> status_code = 404, json = None \<rparr>)) ''908622995'' = Some []
   \<and> dz_serves_page (deezer_then Raises)
       (DEEZER_BASE_URL @ ''/playlist/'' @ ''908622995'' @ ''/tracks'')
       queen_candidates (Some second_url)
   \<and> get_deezer_playlist_tracks (deezer_then Raises) ''908622995'' = Some []"
  by code_simp

text \<open>
  Claim C9. In the Spotify track listing an item whose track is absent or whose type is
  not \<open>track\<close> is left out, and every other item gives one entry, in order; so the
  listing is shorter than the playlist by the number of such items.
\<close>

theorem non_track_items_skipped:
  "playlist_tracks client playlist_id = Returns (Some first)
     \<and> sp_serves (get_tracks client) first others
   \<longrightarrow> (\<exists>tracks. get_spotify_playlist_tracks (Some client) playlist_id = Some tracks
          \<and> tracks = map (\<lambda>item. spotify_listed_of (the (sp_item_track item)))
              (filter (\<lambda>item. \<not> skipped item) (concat (map sp_items (first # map snd others))))
          \<and> length tracks
              + length (filter skipped (concat (map sp_items (first # map snd others))))
            = length (concat (map sp_items (first # map snd others))))"
proof
  assume a: "playlist_tracks client playlist_id = Returns (Some first)
     \<and> sp_serves (get_tracks client) first others"
  let ?all = "concat (map sp_items (first # map snd others))"
  have c: "concat (map (\<lambda>p. spotify_collect [] (sp_items p)) pages) =
      List.map_filter listed_of_item (concat (map sp_items pages))" for pages
    by (simp add: spotify_collect_map_filter map_filter_concat comp_def)
  from a have "get_spotify_playlist_tracks (Some client) playlist_id =
      Some (concat (map (\<lambda>p. spotify_collect [] (sp_items p)) (first # map snd others)))"
    using spotify_loop_serves [of client first others "[]"]
    by (simp add: get_spotify_playlist_tracks_def)
  then have "get_spotify_playlist_tracks (Some client) playlist_id =
      Some (map (\<lambda>item. spotify_listed_of (the (sp_item_track item)))
              (filter (\<lambda>item. \<not> skipped item) ?all))"
    by (simp only: c map_filter_listed)
  then show "\<exists>tracks. get_spotify_playlist_tracks (Some client) playlist_id = Some tracks
          \<and> tracks = map (\<lambda>item. spotify_listed_of (the (sp_item_track item)))
              (filter (\<lambda>item. \<not> skipped item) ?all)
          \<and> length tracks + length (filter skipped ?all) = length ?all"
    by (intro exI conjI) (assumption, rule refl, simp only: length_map filter_split_length)
qed

theorem non_track_items_skipped_witness:
  "\<exists>tracks. get_spotify_playlist_tracks (Some mixed_client) ''p1'' = Some tracks
     \<and> length tracks = 2
     \<and> length (concat (map sp_items [mixed_first, mixed_second])) = 4"
proof -
  have h: "playlist_tracks mixed_client ''p1'' = Returns (Some mixed_first)
        \<and> sp_serves (get_tracks mixed_client) mixed_first [(more_tracks_url, mixed_second)]"
    by code_simp
  have n: "length (filter skipped
        (concat (map sp_items (mixed_first # map snd [(more_tracks_url, mixed_second)])))) = 2"
    by code_simp
  have m: "length (concat (map sp_items (mixed_first # map snd [(more_tracks_url, mixed_second)])))
      = 4"
    by code_simp
  have m': "length (concat (map sp_items [mixed_first, mixed_second])) = 4"
    by code_simp
  from non_track_items_skipped [where client = mixed_client and playlist_id = "''p1''"
      and first = mixed_first and others = "[(more_tracks_url, mixed_second)]"] h
  obtain tracks where t: "get_spotify_playlist_tracks (Some mixed_client) ''p1'' = Some tracks"
    and "length tracks + length (filter skipped
        (concat (map sp_items (mixed_first # map snd [(more_tracks_url, mixed_second)]))))
      = length (concat (map sp_items (mixed_first # map snd [(more_tracks_url, mixed_second)])))"
    by blast
  then have "length tracks = 2"
    unfolding n m by simp
  with t m' show ?thesis
    by blast
qed

text \<open>
  Claim C10. The playlist listing returns the playlists whose owner is the current
  user, in the order served, and no other: a playlist the user only follows has
  another owner and is left out.
\<close>

theorem only_owned_playlists_listed:
  "current_user client = Returns me
     \<and> current_user_playlists client = Returns (Some first)
     \<and> sp_serves (get_playlists client) first others
   \<longrightarrow> get_spotify_playlists (Some client) =
         Some (map playlist_listed_of
           (filter (\<lambda>playlist. sp_pl_owner_id playlist = me)
             (concat (map sp_items (first # map snd others)))))"
proof
  assume "current_user client = Returns me
     \<and> current_user_playlists client = Returns (Some first)
     \<and> sp_serves (get_playlists client) first others"
  then show "get_spotify_playlists (Some client) =
         Some (map playlist_listed_of
           (filter (\<lambda>playlist. sp_pl_owner_id playlist = me)
             (concat (map sp_items (first # map snd others)))))"
    using playlists_loop_serves [of client me first others "[]"]
    by (simp add: get_spotify_playlists_def)
qed

theorem only_owned_playlists_listed_witness:
  "get_spotify_playlists (Some library_client) = Some [playlist_listed_of own_playlist]"
proof -
  have h: "current_user library_client = Returns ''user1''
     \<and> current_user_playlists library_client = Returns (Some library_page)
     \<and> sp_serves (get_playlists library_client) library_page []"
    by code_simp
  have e: "map playlist_listed_of
           (filter (\<lambda>playlist. sp_pl_owner_id playlist = ''user1'')
             (concat (map sp_items
               (library_page # map snd ([] :: (string \<times> sp_playlist sp_page) list))))) =
      [playlist_listed_of own_playlist]"
    by code_simp
  from only_owned_playlists_listed [where client = library_client and me = "''user1''"
      and first = library_page and others = "[]"] h
  have "get_spotify_playlists (Some library_client) =
         Some (map playlist_listed_of
           (filter (\<lambda>playlist. sp_pl_owner_id playlist = ''user1'')
             (concat (map sp_items
               (library_page # map snd ([] :: (string \<times> sp_playlist sp_page) list))))))"
    by (rule mp)
  then show ?thesis unfolding e .
qed

subsection \<open>The token exchange\<close>

lemma test_connection_iff:
  "test_connection oauth user_me =
     (\<exists>token response user_data. access_token oauth = Some token \<and> truthy token
        \<and> user_me token = Returns response \<and> status_code response = 200
        \<and> json response = Some user_data)"
  by (auto simp: test_connection_def split: option.splits outcome.splits)

text \<open>
  Claim C6, as the code has it. The exchange succeeds exactly when an authorization code
  is held, the token endpoint answers with status 200 and a body carrying an
  access-token field, and the request to \<open>/user/me\<close> with that token answers with
  status 200 and a JSON body. After a success the object holds a non-empty access
  token. (The value lists of \<open>parse_qs\<close> are never empty; the statement keeps the
  two subscripts \<open>[0]\<close> of the code, which raise on an empty list.)
\<close>

theorem exchange_succeeds_iff:
  "fst (exchange_code_for_token oauth token_get user_me) =
     (\<exists>code response token rest user_response user_data.
        authorization_code oauth = Some code \<and> truthy code
        \<and> token_get (app_id oauth) (app_secret oauth) code = Returns response
        \<and> tk_status_code response = 200
        \<and> tk_form response ''access_token'' = Some (token # rest)
        \<and> tk_form response ''expires'' \<noteq> Some []
        \<and> truthy token
        \<and> user_me token = Returns user_response \<and> status_code user_response = 200
        \<and> json user_response = Some user_data)
   \<and> (fst (exchange_code_for_token oauth token_get user_me)
      \<longrightarrow> (\<exists>token. access_token (snd (exchange_code_for_token oauth token_get user_me)) = Some token
             \<and> truthy token))"
proof
  show "fst (exchange_code_for_token oauth token_get user_me) =
     (\<exists>code response token rest user_response user_data.
        authorization_code oauth = Some code \<and> truthy code
        \<and> token_get (app_id oauth) (app_secret oauth) code = Returns response
        \<and> tk_status_code response = 200
        \<and> tk_form response ''access_token'' = Some (token # rest)
        \<and> tk_form response ''expires'' \<noteq> Some []
        \<and> truthy token
        \<and> user_me token = Returns user_response \<and> status_code user_response = 200
        \<and> json user_response = Some user_data)"
    by (auto simp: exchange_code_for_token_def test_connection_iff Let_def
          split: option.splits outcome.splits list.splits)
  show "fst (exchange_code_for_token oauth token_get user_me)
      \<longrightarrow> (\<exists>token. access_token (snd (exchange_code_for_token oauth token_get user_me)) = Some token
             \<and> truthy token)"
    by (auto simp: exchange_code_for_token_def test_connection_iff Let_def
          split: option.splits outcome.splits list.splits)
qed

theorem exchange_succeeds_iff_witness:
  "fst (exchange_code_for_token with_code (granting 200) welcoming)
   \<and> access_token (snd (exchange_code_for_token with_code (granting 200) welcoming)) = Some ''frXyZ''"
proof -
  have e: "fst (exchange_code_for_token with_code (granting 200) welcoming)"
    by code_simp
  have s: "access_token (snd (exchange_code_for_token with_code (granting 200) welcoming)) =
      Some ''frXyZ''"
    by code_simp
  from exchange_succeeds_iff [where oauth = with_code and token_get = "granting 200"
      and user_me = welcoming, THEN conjunct2, THEN mp, OF e]
  obtain token where
    "access_token (snd (exchange_code_for_token with_code (granting 200) welcoming)) = Some token"
    "truthy token"
    by blast
  with e s show ?thesis by simp
qed

text \<open>
  The claim as worded fails twice. A token granted with status 200 does not make the
  exchange succeed when \<open>/user/me\<close> answers 401; and a token granted with status 201,
  which is a 2xx status, is refused although \<open>/user/me\<close> would accept it.
\<close>

theorem exchange_counterexample:
  "\<not> claimed_exchange_fails (granted 200)
   \<and> \<not> fst (exchange_code_for_token with_code (granting 200) unauthorized)
   \<and> \<not> claimed_exchange_fails (granted 201)
   \<and> \<not> fst (exchange_code_for_token with_code (granting 201) welcoming)"
  by code_simp

end
